theory Spec2Isabelle
  imports Complex_Main
begin

section \<open>Session manager: the \<open>AuthProvider\<close> component of \<open>App.js\<close>\<close>

text \<open>
  The provider keeps four pieces of state: the entry \<open>token\<close> of \<open>localStorage\<close>, the
  React state variables \<open>token\<close> and \<open>user\<close>, and the process-wide default header
  \<open>axios.defaults.headers.common['Authorization']\<close>. A JavaScript \<open>null\<close> (or an absent
  entry) is \<open>None\<close>. A user profile is the object the API returns; only its \<open>name\<close> and
  its \<open>role\<close> are read by the code, and a profile without a \<open>role\<close> property has
  \<open>role = None\<close>.
\<close>

record user_profile =
  name :: string
  role :: "string option"

text \<open>
  A request sent through axios: the path below the API base, and the \<open>Authorization\<close>
  header it carried, which axios copies from its defaults when the request is made.
\<close>

record request =
  url :: string
  authorization :: "string option"

text \<open>
  \<open>deps\<close> is React's own bookkeeping for \<open>useEffect(..., [token])\<close>: the value of the
  dependency array at the last commit, \<open>None\<close> before the component has mounted.
  \<open>sent\<close> is the log of the requests issued so far.
\<close>

record auth_state =
  localStorage :: "string option"
  token :: "string option"
  user :: "user_profile option"
  Authorization :: "string option"
  deps :: "string option option"
  sent :: "request list"

text \<open>What \<open>await axios.get\<close> can throw: no response at all, or a status outside 2xx.\<close>

datatype failure = NetworkError | HttpStatus nat

text \<open>The body of \<open>POST /auth/login\<close> and \<open>POST /auth/register\<close>, the argument of \<open>login\<close>.\<close>

record token_data =
  access_token :: string
  td_user :: "user_profile option"

text \<open>JavaScript truthiness of a value that is a string or \<open>null\<close>: \<open>if (token)\<close>, \<open>!!token\<close>.\<close>

definition truthy :: "string option \<Rightarrow> bool" where
  "truthy t = (case t of None \<Rightarrow> False | Some v \<Rightarrow> v \<noteq> [])"

definition axios_get :: "string \<Rightarrow> auth_state \<Rightarrow> auth_state" where
  "axios_get path s = s\<lparr>sent := sent s @ [\<lparr>url = path, authorization = Authorization s\<rparr>]\<rparr>"

definition logout :: "auth_state \<Rightarrow> auth_state" where
  "logout s = s\<lparr>localStorage := None, token := None, user := None, Authorization := None\<rparr>"

definition login :: "token_data \<Rightarrow> auth_state \<Rightarrow> auth_state" where
  "login tokenData s =
     s\<lparr>localStorage := Some (access_token tokenData),
       token := Some (access_token tokenData),
       user := td_user tokenData,
       Authorization := Some (''Bearer '' @ access_token tokenData)\<rparr>"

text \<open>
  \<open>fetchUserInfo\<close> is asynchronous. Up to its \<open>await\<close> it sends \<open>GET /auth/me\<close>
  (\<open>fetchUserInfo_send\<close>); when the request settles it stores the profile, or logs out
  on any failure (\<open>fetchUserInfo_settle\<close>). Other events may happen in between, so the
  second half takes the state of that later moment.
\<close>

definition fetchUserInfo_send :: "auth_state \<Rightarrow> auth_state" where
  "fetchUserInfo_send s = axios_get ''/auth/me'' s"

definition fetchUserInfo_settle ::
  "failure + user_profile option \<Rightarrow> auth_state \<Rightarrow> auth_state" where
  "fetchUserInfo_settle response s =
     (case response of Inr data \<Rightarrow> s\<lparr>user := data\<rparr> | Inl error \<Rightarrow> logout s)"

definition fetchUserInfo :: "failure + user_profile option \<Rightarrow> auth_state \<Rightarrow> auth_state" where
  "fetchUserInfo response s = fetchUserInfo_settle response (fetchUserInfo_send s)"

text \<open>The body of the effect: \<open>if (token) { set the header; fetchUserInfo(); }\<close>.\<close>

definition token_effect :: "auth_state \<Rightarrow> auth_state" where
  "token_effect s =
     (case token s of
        None \<Rightarrow> s
      | Some t \<Rightarrow>
          if t \<noteq> [] then fetchUserInfo_send (s\<lparr>Authorization := Some (''Bearer '' @ t)\<rparr>)
          else s)"

text \<open>
  A commit of the component: React runs the effect on mount and after every render in
  which \<open>token\<close> differs from its value at the previous commit.
\<close>

definition commit :: "auth_state \<Rightarrow> auth_state" where
  "commit s =
     (if deps s = Some (token s) then s else token_effect (s\<lparr>deps := Some (token s)\<rparr>))"

text \<open>
  Process start: \<open>useState(null)\<close> for the user, \<open>useState(localStorage.getItem('token'))\<close>
  for the token, no default \<open>Authorization\<close> header yet, then the first commit.
\<close>

definition AuthProvider_init :: "string option \<Rightarrow> auth_state" where
  "AuthProvider_init stored =
     \<lparr>localStorage = stored, token = stored, user = None, Authorization = None,
      deps = None, sent = []\<rparr>"

definition AuthProvider_mount :: "string option \<Rightarrow> auth_state" where
  "AuthProvider_mount stored = commit (AuthProvider_init stored)"

definition isAuthenticated :: "auth_state \<Rightarrow> bool" where
  "isAuthenticated s = truthy (token s)"

text \<open>The state with no session left in it.\<close>

definition cleared :: "auth_state \<Rightarrow> bool" where
  "cleared s = (localStorage s = None \<and> token s = None \<and> user s = None \<and> Authorization s = None)"

section \<open>View router: the \<open>Dashboard\<close> component\<close>

datatype element = Navigate string | OwnerDashboard | AdminDashboard | UserDashboard

definition Dashboard :: "auth_state \<Rightarrow> element" where
  "Dashboard s =
     (case user s of
        None \<Rightarrow> Navigate ''/login''
      | Some u \<Rightarrow>
          if role u = Some ''venue_owner'' then OwnerDashboard
          else if role u = Some ''admin'' then AdminDashboard
          else UserDashboard)"

text \<open>The aggregate each view loads when it mounts.\<close>

fun fetchDashboardData :: "element \<Rightarrow> string option" where
  "fetchDashboardData UserDashboard = Some ''/dashboard/user''"
| "fetchDashboardData OwnerDashboard = Some ''/dashboard/owner''"
| "fetchDashboardData AdminDashboard = Some ''/dashboard/admin''"
| "fetchDashboardData (Navigate _) = None"

section \<open>JavaScript numbers\<close>

text \<open>
  A JavaScript number is an IEEE 754 binary64 value. A finite one is the rational it
  denotes (the two zeros are one value here: the code never tells them apart). The
  product of two numbers is their exact product rounded to the nearest binary64 value,
  ties to the even significand, with gradual underflow below \<open>2\<^sup>-\<^sup>1\<^sup>0\<^sup>2\<^sup>2\<close> and overflow to
  infinity from \<open>2\<^sup>1\<^sup>0\<^sup>2\<^sup>4\<close>.
\<close>

datatype number = Finite rat | Infinity | NegInfinity | NaN

definition pow2 :: "int \<Rightarrow> rat" where
  "pow2 e = (if 0 \<le> e then 2 ^ nat e else 1 / 2 ^ nat (- e))"

text \<open>The number of binary digits of a natural number.\<close>

fun bits :: "nat \<Rightarrow> nat" where
  "bits n = (if n = 0 then 0 else Suc (bits (n div 2)))"

declare bits.simps [simp del]

text \<open>For \<open>x > 0\<close>, the exponent \<open>e\<close> with \<open>2\<^sup>e \<le> x < 2\<^sup>e\<^sup>+\<^sup>1\<close>.\<close>

definition ilog2 :: "rat \<Rightarrow> int" where
  "ilog2 x =
     (if 1 \<le> x then int (bits (nat \<lfloor>x\<rfloor>)) - 1 else - int (bits (nat (\<lceil>1 / x\<rceil> - 1))))"

definition round_even :: "rat \<Rightarrow> int" where
  "round_even r =
     (let f = \<lfloor>r\<rfloor>; d = r - of_int f
      in if d < 1 / 2 then f else if 1 / 2 < d then f + 1 else if even f then f else f + 1)"

definition round64 :: "rat \<Rightarrow> number" where
  "round64 x =
     (if x = 0 then Finite 0
      else
        let a = \<bar>x\<bar>;
            e = max (ilog2 a) (- 1022);
            u = pow2 (e - 52);
            y = of_int (round_even (a / u)) * u
        in if pow2 1024 \<le> y then (if 0 < x then Infinity else NegInfinity)
           else Finite (if 0 < x then y else - y))"

definition inf_times :: "bool \<Rightarrow> rat \<Rightarrow> number" where
  "inf_times pos a = (if a = 0 then NaN else if (0 < a) = pos then Infinity else NegInfinity)"

text \<open>The operator \<open>*\<close>.\<close>

definition js_mul :: "number \<Rightarrow> number \<Rightarrow> number" where
  "js_mul x y =
     (case x of
        NaN \<Rightarrow> NaN
      | Finite a \<Rightarrow>
          (case y of
             NaN \<Rightarrow> NaN
           | Finite b \<Rightarrow> round64 (a * b)
           | Infinity \<Rightarrow> inf_times True a
           | NegInfinity \<Rightarrow> inf_times False a)
      | Infinity \<Rightarrow>
          (case y of
             NaN \<Rightarrow> NaN
           | Finite b \<Rightarrow> inf_times True b
           | Infinity \<Rightarrow> Infinity
           | NegInfinity \<Rightarrow> NegInfinity)
      | NegInfinity \<Rightarrow>
          (case y of
             NaN \<Rightarrow> NaN
           | Finite b \<Rightarrow> inf_times False b
           | Infinity \<Rightarrow> NegInfinity
           | NegInfinity \<Rightarrow> Infinity))"

text \<open>The rationals that are binary64 values: rounding leaves them as they are.\<close>

definition binary64 :: "rat \<Rightarrow> bool" where
  "binary64 r = (round64 r = Finite r)"

text \<open>A decimal literal of the source denotes the binary64 value nearest to it.\<close>

definition literal :: "rat \<Rightarrow> number" where
  "literal q = round64 q"

text \<open>
  A property of a parsed JSON object that holds a number, or is \<open>null\<close> or missing
  (\<open>None\<close>). Such a value is falsy when it is \<open>null\<close>, missing, zero or \<open>NaN\<close>.
\<close>

definition falsy :: "number option \<Rightarrow> bool" where
  "falsy p = (case p of None \<Rightarrow> True | Some n \<Rightarrow> n = Finite 0 \<or> n = NaN)"

text \<open>
  What \<open>JSON.parse\<close> can put there: nothing, a binary64 value, or an infinity for a
  numeral beyond the range.
\<close>

definition json_number :: "number option \<Rightarrow> bool" where
  "json_number p =
     (case p of
        None \<Rightarrow> True
      | Some n \<Rightarrow> (case n of Finite r \<Rightarrow> binary64 r | NaN \<Rightarrow> False | _ \<Rightarrow> True))"

text \<open>The operator \<open>||\<close> with a number on its right: the left operand unless it is falsy.\<close>

definition js_or :: "number option \<Rightarrow> number \<Rightarrow> number" where
  "js_or p d = (case p of None \<Rightarrow> d | Some n \<Rightarrow> if n = Finite 0 \<or> n = NaN then d else n)"

text \<open>The decimal digits of a natural number.\<close>

fun digits :: "nat \<Rightarrow> string" where
  "digits n =
     (if n < 10 then [''0123456789'' ! n]
      else digits (n div 10) @ [''0123456789'' ! (n mod 10)])"

declare digits.simps [simp del]

text \<open>
  \<open>Number.prototype.toFixed\<close>. Below \<open>10\<^sup>2\<^sup>1\<close> the result is the decimal numeral with \<open>f\<close>
  fraction digits nearest to the number, the larger one on a tie; from \<open>10\<^sup>2\<^sup>1\<close> on, and
  for an infinity or \<open>NaN\<close>, it is what \<open>Number::toString\<close> gives, which is left as it is.
\<close>

datatype rendering = Text string | NumberToString number

definition toFixed :: "nat \<Rightarrow> number \<Rightarrow> rendering" where
  "toFixed f x =
     (case x of
        Finite r \<Rightarrow>
          if 10 ^ 21 \<le> \<bar>r\<bar> then NumberToString x
          else
            let n = nat \<lfloor>\<bar>r\<bar> * 10 ^ f + 1 / 2\<rfloor>;
                m = digits n;
                m = replicate (f + 1 - length m) (CHR ''0'') @ m;
                k = length m
            in Text ((if r < 0 then ''-'' else [])
                      @ (if f = 0 then m else take (k - f) m @ ''.'' @ drop (k - f) m))
      | _ \<Rightarrow> NumberToString x)"

section \<open>Venues and booking requests: \<open>VenueDetail\<close> and \<open>BookingForm\<close>\<close>

record venue =
  venue_id :: string
  venue_name :: string
  price_per_hour :: "number option"
  price_per_day :: "number option"

text \<open>The fields of the form, which \<open>handleSubmit\<close> spreads into the payload.\<close>

record form_data =
  form_name :: string
  email :: string
  event_date :: string
  form_event_type :: string
  guests :: string
  message :: string

record booking_data =
  form :: form_data
  booking_venue_id :: string
  booking_venue_name :: string
  booking_price_per_hour :: number
  total_amount :: number
  service_fee :: number
  owner_payout :: number

text \<open>\<open>venue.price_per_hour || venue.price_per_day || 100\<close>, as it stands in three places.\<close>

definition pricePerHour :: "venue \<Rightarrow> number" where
  "pricePerHour v = js_or (price_per_hour v) (js_or (price_per_day v) (Finite 100))"

text \<open>The payload \<open>handleSubmit\<close> posts to \<open>/bookings\<close>.\<close>

definition bookingData :: "venue \<Rightarrow> form_data \<Rightarrow> booking_data" where
  "bookingData v formData =
     \<lparr>form = formData,
      booking_venue_id = venue_id v,
      booking_venue_name = venue_name v,
      booking_price_per_hour = pricePerHour v,
      total_amount = js_mul (pricePerHour v) (Finite 4),
      service_fee = js_mul (js_mul (pricePerHour v) (Finite 4)) (literal (25 / 1000)),
      owner_payout = js_mul (js_mul (pricePerHour v) (Finite 4)) (literal (975 / 1000))\<rparr>"

text \<open>The starting price shown by \<open>VenueDetail\<close>.\<close>

definition starting_price :: "venue \<Rightarrow> number" where
  "starting_price v = js_or (price_per_hour v) (js_or (price_per_day v) (Finite 100))"

text \<open>The three lines of the pricing estimate shown by \<open>BookingForm\<close>.\<close>

definition base_rate :: "venue \<Rightarrow> rendering" where
  "base_rate v =
     toFixed 2 (js_mul (js_or (price_per_hour v) (js_or (price_per_day v) (Finite 100))) (Finite 4))"

definition service_fee_estimate :: "venue \<Rightarrow> rendering" where
  "service_fee_estimate v =
     toFixed 2 (js_mul (js_mul (js_or (price_per_hour v) (js_or (price_per_day v) (Finite 100)))
                          (Finite 4)) (literal (25 / 1000)))"

definition total_estimate :: "venue \<Rightarrow> rendering" where
  "total_estimate v =
     toFixed 2 (js_mul (js_mul (js_or (price_per_hour v) (js_or (price_per_day v) (Finite 100)))
                          (Finite 4)) (literal (1025 / 1000)))"

section \<open>Venue queries: \<open>fetchVenues\<close> and \<open>handleSearch\<close>\<close>




















section \<open>Evaluating the number model\<close>

lemma floor_rat_numeral: "\<lfloor>numeral a / numeral b :: rat\<rfloor> = numeral a div numeral b"
  by (metis floor_divide_of_int_eq of_int_numeral)

lemma floor_rat_one: "\<lfloor>1 / numeral b :: rat\<rfloor> = 1 div numeral b"
  by (metis floor_divide_of_int_eq of_int_1 of_int_numeral)

lemma ceiling_rat_numeral: "\<lceil>numeral a / numeral b :: rat\<rceil> = - (- numeral a div numeral b)"
  by (metis ceiling_def floor_divide_of_int_eq minus_divide_left of_int_minus of_int_numeral)

lemma ceiling_rat_one: "\<lceil>1 / numeral b :: rat\<rceil> = - (- 1 div numeral b)"
  by (metis ceiling_def floor_divide_of_int_eq minus_divide_left of_int_minus of_int_numeral of_int_1)

lemma bits_0: "bits 0 = 0"
  by (simp add: bits.simps)

lemma bits_1: "bits 1 = 1"
  by (simp add: bits.simps)

lemma bits_Suc_0: "bits (Suc 0) = 1"
  by (simp add: bits.simps)

lemma bits_numeral: "bits (numeral k) = Suc (bits (numeral k div 2))"
  by (subst bits.simps) simp

lemma digits_numeral:
  "digits (numeral k) =
     (if numeral k < (10::nat) then [''0123456789'' ! numeral k]
      else digits (numeral k div 10) @ [''0123456789'' ! (numeral k mod 10)])"
  by (rule digits.simps)

lemma digits_0: "digits 0 = ''0''"
  by (simp add: digits.simps)

lemma digits_1: "digits 1 = ''1''"
  by (simp add: digits.simps)

lemma digits_Suc_0: "digits (Suc 0) = ''1''"
  by (simp add: digits.simps)

lemmas number_eval =
  round64_def ilog2_def pow2_def round_even_def Let_def js_mul_def literal_def
  bits_0 bits_1 bits_Suc_0 bits_numeral
  floor_rat_numeral floor_rat_one ceiling_rat_numeral ceiling_rat_one

lemmas toFixed_eval =
  toFixed_def Let_def digits_numeral digits_0 digits_1 digits_Suc_0 floor_rat_numeral floor_rat_one

lemma literal_0025: "literal (1 / 40) = Finite (3602879701896397 / 144115188075855872)"
  by (simp add: number_eval)

lemma literal_0975: "literal (39 / 40) = Finite (8782019273372467 / 9007199254740992)"
  by (simp add: number_eval)

lemma literal_1025: "literal (41 / 40) = Finite (2308094809027379 / 2251799813685248)"
  by (simp add: number_eval)

lemma mul_100_4: "js_mul (Finite 100) (Finite 4) = Finite 400"
  by (simp add: number_eval)

lemma fee_400: "js_mul (Finite 400) (literal (1 / 40)) = Finite 10"
  unfolding literal_0025 by (simp add: number_eval)

lemma payout_400: "js_mul (Finite 400) (literal (39 / 40)) = Finite 390"
  unfolding literal_0975 by (simp add: number_eval)

lemma total_400:
  "js_mul (Finite 400) (literal (41 / 40)) = Finite (7212796278210559 / 17592186044416)"
  unfolding literal_1025 by (simp add: number_eval)

lemma toFixed_400: "toFixed 2 (Finite 400) = Text ''400.00''"
  by (simp add: toFixed_eval)

lemma toFixed_10: "toFixed 2 (Finite 10) = Text ''10.00''"
  by (simp add: toFixed_eval)

lemma toFixed_total: "toFixed 2 (Finite (7212796278210559 / 17592186044416)) = Text ''410.00''"
  by (simp add: toFixed_eval)

text \<open>The model agrees with the well-known \<open>3 * 4 * 0.025 = 0.30000000000000004\<close>.\<close>

lemma js_mul_three_tenths:
  "js_mul (js_mul (Finite 3) (Finite 4)) (literal (1 / 40))
     = Finite (1351079888211149 / 4503599627370496)"
  unfolding literal_0025 by (simp add: number_eval)

text \<open>
  Rounding is visible in the estimate: for an hourly price of 0.75 the exact product
  \<open>4 * 0.75 * 1.025\<close> is 3.075, the computed one lies just below it, and the line reads
  \<open>3.07\<close>.
\<close>

lemma total_line_three_quarters:
  "js_mul (js_mul (Finite (3 / 4)) (Finite 4)) (literal (41 / 40))
     = Finite (6924284427082137 / 2251799813685248)
   \<and> toFixed 2 (Finite (6924284427082137 / 2251799813685248)) = Text ''3.07''"
  unfolding literal_1025 by (simp add: number_eval toFixed_eval)

section \<open>Properties of rounding\<close>

lemma bits_upper: "n < 2 ^ bits n"
proof (induction n rule: bits.induct)
  case (1 n)
  show ?case
  proof (cases "n = 0")
    case True
    then show ?thesis by (simp add: bits.simps)
  next
    case False
    with 1 have "n div 2 < 2 ^ bits (n div 2)" by simp
    then have "n < 2 * 2 ^ bits (n div 2)" by arith
    with False show ?thesis by (subst bits.simps) simp
  qed
qed

lemma bits_lower: "0 < n \<Longrightarrow> 2 ^ (bits n - 1) \<le> n"
proof (induction n rule: bits.induct)
  case (1 n)
  show ?case
  proof (cases "n div 2 = 0")
    case True
    with 1(2) have "n = 1" by arith
    then show ?thesis by (simp add: bits.simps)
  next
    case False
    with 1 have ih: "2 ^ (bits (n div 2) - 1) \<le> n div 2" by simp
    from False have "0 < bits (n div 2)" by (subst bits.simps) simp
    then have "bits n - 1 = Suc (bits (n div 2) - 1)"
      using 1(2) by (subst bits.simps) simp
    with ih show ?thesis by simp
  qed
qed

lemma pow2_pos: "0 < pow2 e"
  by (simp add: pow2_def)

lemma pow2_add: "pow2 (a + b) = pow2 a * pow2 b"
proof -
  have "pow2 e = 2 powi e" for e
    by (simp add: pow2_def power_int_def field_simps)
  then show ?thesis by (simp add: power_int_add)
qed

lemma pow2_mono: "a \<le> b \<Longrightarrow> pow2 a \<le> pow2 b"
proof -
  have "pow2 e = 2 powi e" for e
    by (simp add: pow2_def power_int_def field_simps)
  then show "a \<le> b \<Longrightarrow> pow2 a \<le> pow2 b"
    by (simp add: power_int_increasing)
qed

lemma pow2_of_nat: "pow2 (int k) = 2 ^ k"
  by (simp add: pow2_def)

lemma ilog2_lower: "0 < a \<Longrightarrow> pow2 (ilog2 a) \<le> a"
proof (cases "1 \<le> a")
  case True
  then have pos: "0 < nat \<lfloor>a\<rfloor>" by simp
  let ?n = "nat \<lfloor>a\<rfloor>"
  from pos have b: "0 < bits ?n" by (subst bits.simps) simp
  then have "ilog2 a = int (bits ?n - 1)" using True by (simp add: ilog2_def)
  then have "pow2 (ilog2 a) = 2 ^ (bits ?n - 1)" by (simp add: pow2_of_nat)
  also have "\<dots> \<le> of_nat ?n"
    using bits_lower [OF pos] by (metis of_nat_le_iff of_nat_numeral of_nat_power)
  also have "\<dots> \<le> a" using True by simp
  finally show ?thesis .
next
  case False
  assume a: "0 < a"
  let ?n = "nat (\<lceil>1 / a\<rceil> - 1)"
  from False a have "1 < 1 / a" by simp
  then have c: "1 / a \<le> of_int (\<lceil>1 / a\<rceil>)" by (simp add: le_of_int_ceiling)
  from a have "0 < \<lceil>1 / a\<rceil>" by simp
  then have "0 \<le> \<lceil>1 / a\<rceil> - 1" by simp
  then have "(of_nat ?n :: rat) = of_int (\<lceil>1 / a\<rceil> - 1)" by (rule of_nat_nat)
  then have "of_int \<lceil>1 / a\<rceil> = (of_nat ?n :: rat) + 1" by simp
  also have "\<dots> \<le> 2 ^ bits ?n"
  proof -
    have "Suc ?n \<le> 2 ^ bits ?n" by (rule Suc_leI) (rule bits_upper)
    then have "(of_nat (Suc ?n) :: rat) \<le> of_nat (2 ^ bits ?n)" by (simp only: of_nat_le_iff)
    then show ?thesis by simp
  qed
  finally have "rat_of_int \<lceil>1 / a\<rceil> \<le> 2 ^ bits ?n" .
  with c have "1 / a \<le> 2 ^ bits ?n" by (rule order_trans)
  then have "1 / 2 ^ bits ?n \<le> a" using a by (simp add: field_simps)
  moreover have "pow2 (ilog2 a) = 1 / 2 ^ bits ?n"
    using False by (simp add: ilog2_def pow2_def)
  ultimately show ?thesis by simp
qed


lemma round_even_ge_floor: "\<lfloor>r\<rfloor> \<le> round_even r"
  by (simp add: round_even_def Let_def)

lemma round_even_pos: "1 \<le> r \<Longrightarrow> 1 \<le> round_even r"
proof -
  assume "1 \<le> r"
  then have "1 \<le> \<lfloor>r\<rfloor>" by simp
  with round_even_ge_floor [of r] show ?thesis by linarith
qed

lemma round64_nonzero:
  assumes "pow2 (- 1074) \<le> \<bar>x\<bar>"
  shows "round64 x \<noteq> Finite 0"
proof -
  define a where "a = \<bar>x\<bar>"
  define e where "e = max (ilog2 a) (- 1022)"
  define u where "u = pow2 (e - 52)"
  define y where "y = of_int (round_even (a / u)) * u"
  have apos: "0 < a" using assms pow2_pos [of "- 1074"] by (simp add: a_def)
  then have x0: "x \<noteq> 0" by (auto simp: a_def)
  have upos: "0 < u" by (simp add: u_def pow2_pos)
  have "u \<le> a"
  proof (cases "- 1022 \<le> ilog2 a")
    case True
    then have "e = ilog2 a" by (simp add: e_def)
    then have "u \<le> pow2 (ilog2 a)" unfolding u_def by (intro pow2_mono) simp
    also have "\<dots> \<le> a" by (rule ilog2_lower [OF apos])
    finally show ?thesis .
  next
    case False
    then have "e = - 1022" by (simp add: e_def)
    then have "u = pow2 (- 1074)" by (simp add: u_def)
    with assms show ?thesis by (simp add: a_def)
  qed
  then have "1 \<le> a / u" using upos by (simp add: field_simps)
  then have "1 \<le> round_even (a / u)" by (rule round_even_pos)
  then have "1 \<le> (of_int (round_even (a / u)) :: rat)" by simp
  then have "u \<le> y" using upos by (simp add: y_def)
  with upos have ypos: "0 < y" by simp
  have "round64 x =
      (if pow2 1024 \<le> y then (if 0 < x then Infinity else NegInfinity)
       else Finite (if 0 < x then y else - y))"
    using x0 by (simp add: round64_def Let_def a_def e_def u_def y_def)
  with ypos show ?thesis by auto
qed

lemma binary64_lower:
  assumes "binary64 p" and "p \<noteq> 0"
  shows "pow2 (- 1074) \<le> \<bar>p\<bar>"
proof -
  define a where "a = \<bar>p\<bar>"
  define e where "e = max (ilog2 a) (- 1022)"
  define u where "u = pow2 (e - 52)"
  define m where "m = round_even (a / u)"
  define y where "y = of_int m * u"
  have upos: "0 < u" by (simp add: u_def pow2_pos)
  have r: "round64 p =
      (if pow2 1024 \<le> y then (if 0 < p then Infinity else NegInfinity)
       else Finite (if 0 < p then y else - y))"
    using assms(2) by (simp add: round64_def Let_def a_def e_def u_def y_def m_def)
  with assms(1) have "(if 0 < p then y else - y) = p"
    by (auto simp: binary64_def split: if_splits)
  then have ya: "y = a" by (auto simp: a_def split: if_splits)
  have "0 < a" using assms(2) by (simp add: a_def)
  with ya have "0 < of_int m * u" by (simp add: y_def)
  with upos have "0 < (of_int m :: rat)" by (simp add: zero_less_mult_iff)
  then have "1 \<le> m" by simp
  then have "1 \<le> (of_int m :: rat)" by simp
  then have "u \<le> y" using upos by (simp add: y_def)
  moreover have "pow2 (- 1074) \<le> u" unfolding u_def by (intro pow2_mono) (simp add: e_def)
  ultimately show ?thesis using ya by (simp add: a_def)
qed

lemma js_mul_4_nonzero:
  assumes "binary64 p" and "p \<noteq> 0"
  shows "js_mul (Finite p) (Finite 4) \<noteq> Finite 0"
proof -
  have "pow2 (- 1074) \<le> \<bar>p\<bar>" using assms by (rule binary64_lower)
  then have "pow2 (- 1074) \<le> \<bar>p * 4\<bar>" by (simp add: abs_mult)
  then show ?thesis by (simp add: js_mul_def round64_nonzero)
qed

lemma pow2_powi: "pow2 e = 2 powi e"
  by (simp add: pow2_def power_int_def field_simps)

lemma pow2_neg_nat: "pow2 (- int k) = 1 / 2 ^ k"
  by (simp add: pow2_powi power_int_minus field_simps)

lemma ilog2_upper: "0 < a \<Longrightarrow> a < pow2 (ilog2 a + 1)"
proof (cases "1 \<le> a")
  case True
  define n where "n = nat \<lfloor>a\<rfloor>"
  from True have pos: "0 < n" by (simp add: n_def)
  then have b: "0 < bits n" by (subst bits.simps) simp
  have "ilog2 a + 1 = int (bits n)" using True b by (simp add: ilog2_def n_def)
  then have p: "pow2 (ilog2 a + 1) = 2 ^ bits n" by (simp add: pow2_of_nat)
  have "Suc n \<le> 2 ^ bits n" by (rule Suc_leI) (rule bits_upper)
  then have "(of_nat (Suc n) :: rat) \<le> of_nat (2 ^ bits n)" by (simp only: of_nat_le_iff)
  then have le: "(of_nat n :: rat) + 1 \<le> 2 ^ bits n" by simp
  have "(of_nat n :: rat) = of_int \<lfloor>a\<rfloor>" using True by (simp add: n_def)
  then have "a < of_nat n + 1" by linarith
  with le p show ?thesis by simp
next
  case False
  assume a: "0 < a"
  define n where "n = nat (\<lceil>1 / a\<rceil> - 1)"
  from False a have z: "1 < 1 / a" by simp
  then have c1: "1 < \<lceil>1 / a\<rceil>" by (simp add: less_ceiling_iff)
  then have "0 \<le> \<lceil>1 / a\<rceil> - 1" by linarith
  then have "(of_nat n :: rat) = of_int (\<lceil>1 / a\<rceil> - 1)" unfolding n_def by (rule of_nat_nat)
  then have nn: "(of_nat n :: rat) = of_int \<lceil>1 / a\<rceil> - 1" by simp
  have n1: "0 < n" using c1 unfolding n_def by linarith
  have "of_int \<lceil>1 / a\<rceil> - 1 < 1 / a" by linarith
  with nn have lt: "(of_nat n :: rat) < 1 / a" by simp
  from n1 have b: "0 < bits n" by (subst bits.simps) simp
  have "2 ^ (bits n - 1) \<le> n" by (rule bits_lower [OF n1])
  then have "(of_nat (2 ^ (bits n - 1)) :: rat) \<le> of_nat n" by (simp only: of_nat_le_iff)
  then have "(2 :: rat) ^ (bits n - 1) \<le> of_nat n" by (simp only: of_nat_power of_nat_numeral)
  then have "(2 :: rat) ^ (bits n - 1) < 1 / a" using lt by (rule le_less_trans)
  then have "a < 1 / 2 ^ (bits n - 1)" using a by (simp add: field_simps)
  moreover have "ilog2 a + 1 = - int (bits n - 1)"
    using False b by (simp add: ilog2_def n_def)
  then have "pow2 (ilog2 a + 1) = 1 / 2 ^ (bits n - 1)"
    by (simp only: pow2_neg_nat)
  ultimately show ?thesis by simp
qed

lemma ilog2_unique:
  assumes "0 < a" and "pow2 e \<le> a" and "a < pow2 (e + 1)"
  shows "ilog2 a = e"
proof (rule antisym)
  show "ilog2 a \<le> e"
  proof (rule ccontr)
    assume "\<not> ilog2 a \<le> e"
    then have "e + 1 \<le> ilog2 a" by simp
    then have "pow2 (e + 1) \<le> pow2 (ilog2 a)" by (rule pow2_mono)
    also have "\<dots> \<le> a" by (rule ilog2_lower [OF assms(1)])
    finally show False using assms(3) by simp
  qed
  show "e \<le> ilog2 a"
  proof (rule ccontr)
    assume "\<not> e \<le> ilog2 a"
    then have "ilog2 a + 1 \<le> e" by simp
    then have "pow2 (ilog2 a + 1) \<le> pow2 e" by (rule pow2_mono)
    with ilog2_upper [OF assms(1)] assms(2) show False by simp
  qed
qed

lemma ilog2_times_4: "0 < a \<Longrightarrow> ilog2 (a * 4) = ilog2 a + 2"
proof (rule ilog2_unique)
  assume a: "0 < a"
  then show "0 < a * 4" by simp
  have p2: "pow2 2 = 4" by (simp add: pow2_def)
  have "pow2 (ilog2 a + 2) = pow2 (ilog2 a) * 4" by (simp add: pow2_add p2)
  then show "pow2 (ilog2 a + 2) \<le> a * 4" using ilog2_lower [OF a] by simp
  have "pow2 (ilog2 a + 2 + 1) = pow2 (ilog2 a + 1) * 4"
    using pow2_add [of "ilog2 a + 1" 2] by (simp add: p2 add.commute add.left_commute)
  then show "a * 4 < pow2 (ilog2 a + 2 + 1)" using ilog2_upper [OF a] by simp
qed

lemma round_even_of_int: "round_even (of_int k) = k"
  by (simp add: round_even_def Let_def)

lemma round_even_error: "\<bar>of_int (round_even r) - r\<bar> \<le> 1 / 2"
proof -
  define f where "f = \<lfloor>r\<rfloor>"
  have b: "of_int f \<le> r" "r < of_int f + 1" unfolding f_def by linarith+
  have "round_even r = f \<and> r - of_int f \<le> 1 / 2 \<or> round_even r = f + 1 \<and> 1 / 2 \<le> r - of_int f"
    unfolding round_even_def Let_def f_def [symmetric] by auto
  then show ?thesis
  proof
    assume "round_even r = f \<and> r - of_int f \<le> 1 / 2"
    with b show ?thesis by (simp add: abs_if)
  next
    assume "round_even r = f + 1 \<and> 1 / 2 \<le> r - of_int f"
    with b show ?thesis by (simp add: abs_if)
  qed
qed

lemma round64_unfold:
  assumes "x \<noteq> 0"
  shows "round64 x =
    (if pow2 1024 \<le> of_int (round_even (\<bar>x\<bar> / pow2 (max (ilog2 \<bar>x\<bar>) (- 1022) - 52)))
          * pow2 (max (ilog2 \<bar>x\<bar>) (- 1022) - 52)
     then (if 0 < x then Infinity else NegInfinity)
     else Finite (if 0 < x
       then of_int (round_even (\<bar>x\<bar> / pow2 (max (ilog2 \<bar>x\<bar>) (- 1022) - 52)))
          * pow2 (max (ilog2 \<bar>x\<bar>) (- 1022) - 52)
       else - (of_int (round_even (\<bar>x\<bar> / pow2 (max (ilog2 \<bar>x\<bar>) (- 1022) - 52)))
          * pow2 (max (ilog2 \<bar>x\<bar>) (- 1022) - 52))))"
  using assms by (simp add: round64_def Let_def)

lemma binary64_repr:
  assumes "binary64 p" and "p \<noteq> 0"
  shows "of_int (round_even (\<bar>p\<bar> / pow2 (max (ilog2 \<bar>p\<bar>) (- 1022) - 52)))
          * pow2 (max (ilog2 \<bar>p\<bar>) (- 1022) - 52) = \<bar>p\<bar>"
  using assms(1) unfolding binary64_def round64_unfold [OF assms(2)]
  by (auto split: if_splits)

lemma round64_times_4:
  assumes "binary64 p" and "\<bar>p * 4\<bar> < pow2 1024"
  shows "round64 (p * 4) = Finite (p * 4)"
proof (cases "p = 0")
  case True
  then show ?thesis by (simp add: round64_def)
next
  case False
  define a where "a = \<bar>p\<bar>"
  define e where "e = max (ilog2 a) (- 1022)"
  define u where "u = pow2 (e - 52)"
  define m where "m = round_even (a / u)"
  define e' where "e' = max (ilog2 a + 2) (- 1022)"
  define u' where "u' = pow2 (e' - 52)"
  define d where "d = e + 2 - e'"
  have apos: "0 < a" using False by (simp add: a_def)
  have upos: "0 < u" "0 < u'" by (simp_all add: u_def u'_def pow2_pos)
  have repr: "of_int m * u = a"
    using binary64_repr [OF assms(1) False] by (simp add: a_def e_def u_def m_def)
  have d0: "0 \<le> d" by (simp add: d_def e_def e'_def)
  have p2: "pow2 2 = 4" by (simp add: pow2_def)
  have "pow2 (e - 52 + 2) = pow2 (e - 52) * pow2 2" by (rule pow2_add)
  then have "u * 4 = pow2 (e - 52 + 2)" by (simp only: u_def p2)
  also have "e - 52 + 2 = (e' - 52) + d" by (simp add: d_def)
  also have "pow2 ((e' - 52) + d) = u' * pow2 d" by (simp add: pow2_add u'_def)
  also have "pow2 d = of_int (2 ^ nat d)" using d0 by (simp add: pow2_def)
  finally have u4: "u * 4 = u' * of_int (2 ^ nat d)" .
  have "a * 4 = of_int m * (u * 4)" using repr by simp
  also have "\<dots> = of_int (m * 2 ^ nat d) * u'" by (simp only: u4 of_int_mult mult_ac)
  finally have a4: "a * 4 = of_int (m * 2 ^ nat d) * u'" .
  then have "a * 4 / u' = of_int (m * 2 ^ nat d)" using upos by simp
  then have "round_even (a * 4 / u') = m * 2 ^ nat d" by (simp only: round_even_of_int)
  then have y: "of_int (round_even (a * 4 / u')) * u' = a * 4" using a4 by simp
  have abs4: "\<bar>p * 4\<bar> = a * 4" by (simp add: a_def abs_mult)
  have il: "max (ilog2 (a * 4)) (- 1022) = e'"
    by (simp only: ilog2_times_4 [OF apos] e'_def)
  have lt: "\<not> pow2 1024 \<le> a * 4" using assms(2) by (simp only: abs4 not_le)
  have "p * 4 \<noteq> 0" using False by simp
  from round64_unfold [OF this]
  have "round64 (p * 4) = Finite (if 0 < p * 4 then a * 4 else - (a * 4))"
    unfolding abs4 il u'_def [symmetric] y by (simp only: lt if_False)
  moreover have "(if 0 < p * 4 then a * 4 else - (a * 4)) = p * 4"
    by (cases "0 < p") (simp_all add: a_def)
  ultimately show ?thesis by (simp only:)
qed

lemma round64_error:
  assumes "pow2 (- 1022) \<le> \<bar>x\<bar>" and "round64 x = Finite y"
  shows "\<bar>y - x\<bar> \<le> \<bar>x\<bar> / 2 ^ 53"
proof -
  define a where "a = \<bar>x\<bar>"
  define u where "u = pow2 (ilog2 a - 52)"
  define m where "m = round_even (a / u)"
  have apos: "0 < a" using assms(1) pow2_pos [of "- 1022"] by (simp add: a_def)
  then have x0: "x \<noteq> 0" by (auto simp: a_def)
  have upos: "0 < u" by (simp add: u_def pow2_pos)
  have "- 1022 \<le> ilog2 a"
  proof (rule ccontr)
    assume "\<not> - 1022 \<le> ilog2 a"
    then have "ilog2 a + 1 \<le> - 1022" by simp
    then have "pow2 (ilog2 a + 1) \<le> pow2 (- 1022)" by (rule pow2_mono)
    with ilog2_upper [OF apos] assms(1) show False by (simp add: a_def)
  qed
  then have e: "max (ilog2 \<bar>x\<bar>) (- 1022) = ilog2 a" by (simp add: a_def)
  have "round64 x = Finite (if 0 < x then of_int m * u else - (of_int m * u))"
    using assms(2) unfolding round64_unfold [OF x0] e
    by (simp add: m_def u_def a_def split: if_splits)
  with assms(2) have "y = (if 0 < x then of_int m * u else - (of_int m * u))" by simp
  then have "y - x = of_int m * u - a \<or> y - x = - (of_int m * u - a)"
    using x0 by (auto simp: a_def)
  then have "\<bar>y - x\<bar> = \<bar>of_int m * u - a\<bar>" by auto
  also have "\<dots> = \<bar>of_int m - a / u\<bar> * u"
  proof -
    have "of_int m * u - a = (of_int m - a / u) * u" using upos by (simp add: field_simps)
    then show ?thesis using upos by (simp add: abs_mult)
  qed
  also have "\<dots> \<le> 1 / 2 * u"
    using round_even_error [of "a / u"] upos unfolding m_def by (intro mult_right_mono) simp_all
  also have "\<dots> = pow2 (ilog2 a) / 2 ^ 53"
  proof -
    have "pow2 (ilog2 a) = u * pow2 52" unfolding u_def pow2_add [symmetric] by simp
    then show ?thesis by (simp add: pow2_def)
  qed
  also have "\<dots> \<le> a / 2 ^ 53" using ilog2_lower [OF apos] by (simp add: divide_right_mono)
  finally show ?thesis by (simp add: a_def)
qed

section \<open>The effective hourly price\<close>

lemma binary64_100: "binary64 100"
  by (simp add: binary64_def number_eval)

lemma binary64_50: "binary64 50"
  by (simp add: binary64_def number_eval)

lemma binary64_0: "binary64 0"
  by (simp add: binary64_def round64_def)

lemma pow2_1024_gt: "(400 :: rat) < pow2 1024"
  by (simp add: pow2_def)

lemma pricePerHour_cases:
  "pricePerHour v \<noteq> Finite 0 \<and> pricePerHour v \<noteq> NaN"
  by (simp add: pricePerHour_def js_or_def split: option.splits)

lemma pricePerHour_json:
  assumes "json_number (price_per_hour v)" and "json_number (price_per_day v)"
    and "pricePerHour v = Finite p"
  shows "binary64 p"
  using assms binary64_100
  by (auto simp: pricePerHour_def js_or_def json_number_def split: option.splits if_splits number.splits)

lemma total_amount_nonzero:
  assumes "json_number (price_per_hour v)" and "json_number (price_per_day v)"
  shows "js_mul (pricePerHour v) (Finite 4) \<noteq> Finite 0"
proof (cases "pricePerHour v")
  case (Finite p)
  with pricePerHour_cases [of v] have "p \<noteq> 0" by simp
  moreover have "binary64 p" using assms Finite by (rule pricePerHour_json)
  ultimately show ?thesis using Finite by (simp add: js_mul_4_nonzero)
next
  case Infinity
  then show ?thesis by (simp add: js_mul_def inf_times_def)
next
  case NegInfinity
  then show ?thesis by (simp add: js_mul_def inf_times_def)
next
  case NaN
  with pricePerHour_cases [of v] show ?thesis by simp
qed

section \<open>Accuracy of the rounded products\<close>

text \<open>
  A product with a constant that is itself a rounded decimal differs from the exact
  product with the decimal by a relative error of at most \<open>2\<^sup>-\<^sup>5\<^sup>1\<close>, as long as it stays in
  the normal range.
\<close>

lemma rounded_product_accuracy:
  assumes r: "round64 (w * c) = Finite y"
    and n: "pow2 (- 1022) \<le> \<bar>w * c\<bar>"
    and c: "\<bar>c - q\<bar> \<le> \<bar>q\<bar> / 2 ^ 53"
  shows "\<bar>y - w * q\<bar> \<le> \<bar>w * q\<bar> / 2 ^ 51"
proof -
  define A where "A = \<bar>w * q\<bar>"
  have A0: "0 \<le> A" by (simp add: A_def)
  have 1: "\<bar>y - w * c\<bar> \<le> \<bar>w * c\<bar> / 2 ^ 53" by (rule round64_error [OF n r])
  have "\<bar>w * c - w * q\<bar> = \<bar>w\<bar> * \<bar>c - q\<bar>"
    by (simp add: abs_mult right_diff_distrib [symmetric])
  also have "\<dots> \<le> \<bar>w\<bar> * (\<bar>q\<bar> / 2 ^ 53)"
    using c by (intro mult_left_mono) simp_all
  also have "\<dots> = A / 2 ^ 53" by (simp add: A_def abs_mult)
  finally have 2: "\<bar>w * c - w * q\<bar> \<le> A / 2 ^ 53" .
  have "\<bar>w * c\<bar> \<le> \<bar>w * q\<bar> + \<bar>w * c - w * q\<bar>" by linarith
  with 2 have 3: "\<bar>w * c\<bar> \<le> A + A / 2 ^ 53" by (simp add: A_def)
  have "\<bar>w * c\<bar> / 2 ^ 53 \<le> (A + A / 2 ^ 53) / 2 ^ 53"
    using 3 by (intro divide_right_mono) simp_all
  with 1 have 4: "\<bar>y - w * c\<bar> \<le> (A + A / 2 ^ 53) / 2 ^ 53" by linarith
  have "\<bar>y - w * q\<bar> \<le> \<bar>y - w * c\<bar> + \<bar>w * c - w * q\<bar>" by linarith
  with 4 2 have "\<bar>y - w * q\<bar> \<le> (A + A / 2 ^ 53) / 2 ^ 53 + A / 2 ^ 53" by linarith
  also have "\<dots> \<le> A / 2 ^ 51" using A0 by simp
  finally show ?thesis by (simp add: A_def)
qed

lemma normal_product:
  assumes "pow2 (- 1018) \<le> \<bar>p\<bar>" and "1 / 16 \<le> k"
  shows "pow2 (- 1022) \<le> \<bar>p\<bar> * k"
proof -
  have "pow2 (- 1022 + 4) = pow2 (- 1022) * pow2 4" by (rule pow2_add)
  then have e: "pow2 (- 1018) = pow2 (- 1022) * 16" by (simp add: pow2_def)
  have "pow2 (- 1022) = pow2 (- 1018) * (1 / 16)" by (simp add: e)
  also have "\<dots> \<le> \<bar>p\<bar> * k"
    using assms pow2_pos [of "- 1018"] by (intro mult_mono) simp_all
  finally show ?thesis .
qed

lemma constants_accuracy:
  "\<bar>3602879701896397 / 144115188075855872 - 25 / 1000 :: rat\<bar> \<le> \<bar>25 / 1000\<bar> / 2 ^ 53"
  "\<bar>8782019273372467 / 9007199254740992 - 975 / 1000 :: rat\<bar> \<le> \<bar>975 / 1000\<bar> / 2 ^ 53"
  "\<bar>2308094809027379 / 2251799813685248 - 1025 / 1000 :: rat\<bar> \<le> \<bar>1025 / 1000\<bar> / 2 ^ 53"
  by simp_all

lemma binary64_3: "binary64 3"
  by (simp add: binary64_def number_eval)

lemma mul_50_4: "js_mul (Finite 50) (Finite 4) = Finite 200"
  by (simp add: number_eval)

lemma fee_200: "js_mul (Finite 200) (literal (1 / 40)) = Finite 5"
  unfolding literal_0025 by (simp add: number_eval)

lemma payout_200: "js_mul (Finite 200) (literal (39 / 40)) = Finite 195"
  unfolding literal_0975 by (simp add: number_eval)

lemma toFixed_exact_tie: "toFixed 2 (Finite (4 * (3 / 4) * (1025 / 1000))) = Text ''3.08''"
  by (simp add: toFixed_eval)

lemma pow2_bounds_small:
  "pow2 (- 1018) \<le> (3 :: rat)" "pow2 (- 1018) \<le> (100 :: rat)"
  "(12 :: rat) < pow2 1024" "(400 :: rat) < pow2 1024" "(200 :: rat) < pow2 1024"
  by (simp_all add: pow2_def)

lemma mul_3_4: "js_mul (Finite 3) (Finite 4) = Finite 12"
  by (simp add: number_eval)

section \<open>Properties of the query serializer\<close>


















section \<open>Logout\<close>

text \<open>
  C5. \<open>logout()\<close>, from any state at all, removes the persisted token, sets the in-memory
  token and user to \<open>null\<close> and deletes the default \<open>Authorization\<close> header; applying it a
  second time changes nothing.
\<close>

theorem logout_clears_and_idempotent:
  "localStorage (logout s) = None \<and> token (logout s) = None \<and> user (logout s) = None
   \<and> Authorization (logout s) = None \<and> logout (logout s) = logout s"
  by (simp add: logout_def)

section \<open>Profile fetch failure\<close>

text \<open>
  C1. When the profile fetch fails, whatever the failure and whatever the state at that
  moment (in particular for a session restored from a persisted token), the session is
  torn down completely: the persisted token is removed, the in-memory token and user are
  \<open>null\<close> and the default \<open>Authorization\<close> header is deleted. The re-render that follows
  leaves it so and sends nothing, and two failures of different causes give the same
  state.
\<close>

theorem fetchUserInfo_failure_clears_session:
  "cleared (fetchUserInfo_settle (Inl e) s)
   \<and> cleared (commit (fetchUserInfo_settle (Inl e) s))
   \<and> sent (commit (fetchUserInfo_settle (Inl e) s)) = sent s
   \<and> cleared (commit (fetchUserInfo_settle (Inl e) (AuthProvider_mount stored)))
   \<and> fetchUserInfo_settle (Inl e) s = fetchUserInfo_settle (Inl e') s"
  by (simp add: fetchUserInfo_settle_def logout_def cleared_def commit_def token_effect_def)

section \<open>Process start\<close>

text \<open>
  C7. On process start the provider reads the persisted token into its state. If a
  token is present (a non-empty string, the test \<open>if (token)\<close>), the default
  \<open>Authorization\<close> header becomes \<open>Bearer <token>\<close> and exactly one request for the profile
  is sent, carrying that header. If none is present, the header stays unset and no
  request is sent.
\<close>

theorem AuthProvider_mount_restores:
  "token (AuthProvider_mount stored) = stored
   \<and> (\<forall>t. stored = Some t \<and> t \<noteq> [] \<longrightarrow>
         Authorization (AuthProvider_mount stored) = Some (''Bearer '' @ t)
         \<and> sent (AuthProvider_mount stored)
             = [\<lparr>url = ''/auth/me'', authorization = Some (''Bearer '' @ t)\<rparr>])
   \<and> (\<not> truthy stored \<longrightarrow>
         Authorization (AuthProvider_mount stored) = None \<and> sent (AuthProvider_mount stored) = [])
   \<and> (truthy stored \<longleftrightarrow> Authorization (AuthProvider_mount stored) \<noteq> None)
   \<and> (truthy stored \<longleftrightarrow> sent (AuthProvider_mount stored) \<noteq> [])"
  by (cases stored)
     (simp_all add: AuthProvider_mount_def AuthProvider_init_def commit_def token_effect_def
        fetchUserInfo_send_def axios_get_def truthy_def)

theorem AuthProvider_mount_restores_witness:
  "Authorization (AuthProvider_mount (Some ''abc'')) = Some ''Bearer abc''
   \<and> sent (AuthProvider_mount (Some ''abc''))
       = [\<lparr>url = ''/auth/me'', authorization = Some ''Bearer abc''\<rparr>]
   \<and> \<not> truthy None
   \<and> Authorization (AuthProvider_mount None) = None \<and> sent (AuthProvider_mount None) = []
   \<and> \<not> truthy (Some [])
   \<and> Authorization (AuthProvider_mount (Some [])) = None
   \<and> sent (AuthProvider_mount (Some [])) = []"
  using AuthProvider_mount_restores [of "Some ''abc''"] AuthProvider_mount_restores [of None]
    AuthProvider_mount_restores [of "Some []"]
  by (simp add: truthy_def)

section \<open>Login\<close>

text \<open>
  C6, as the code has it. \<open>login\<close> persists the returned token, sets the default
  \<open>Authorization\<close> header to \<open>Bearer <token>\<close>, sets the in-memory user from the response
  payload and sends no request itself. The commit that follows the state change runs
  the token effect: when the new token is non-empty and differs from the token of the
  previous commit, one profile request is sent, carrying the new header; otherwise none
  is. In both cases the session fields are as \<open>login\<close> left them, and every later request
  carries the header.
\<close>

theorem login_persists_then_effect_fetches:
  "localStorage (login td s) = Some (access_token td)
   \<and> token (login td s) = Some (access_token td)
   \<and> user (login td s) = td_user td
   \<and> Authorization (login td s) = Some (''Bearer '' @ access_token td)
   \<and> sent (login td s) = sent s
   \<and> sent (commit (login td s))
       = (if access_token td \<noteq> [] \<and> deps s \<noteq> Some (Some (access_token td))
          then sent s @ [\<lparr>url = ''/auth/me'',
                           authorization = Some (''Bearer '' @ access_token td)\<rparr>]
          else sent s)
   \<and> localStorage (commit (login td s)) = Some (access_token td)
   \<and> token (commit (login td s)) = Some (access_token td)
   \<and> user (commit (login td s)) = td_user td
   \<and> Authorization (commit (login td s)) = Some (''Bearer '' @ access_token td)
   \<and> last (sent (axios_get path (commit (login td s))))
       = \<lparr>url = path, authorization = Some (''Bearer '' @ access_token td)\<rparr>"
  by (simp add: login_def commit_def token_effect_def fetchUserInfo_send_def axios_get_def)

text \<open>
  A login is followed by a profile request: starting with no persisted token, after a
  login with the token \<open>abc\<close> the log holds one request for \<open>/auth/me\<close>.
\<close>

theorem login_issues_profile_fetch:
  "sent (AuthProvider_mount None) = []
   \<and> sent (commit (login \<lparr>access_token = ''abc'',
                            td_user = Some \<lparr>name = ''Ann'', role = Some ''user''\<rparr>\<rparr>
                     (AuthProvider_mount None)))
       = [\<lparr>url = ''/auth/me'', authorization = Some ''Bearer abc''\<rparr>]"
  by (simp add: login_def commit_def token_effect_def fetchUserInfo_send_def axios_get_def
      AuthProvider_mount_def AuthProvider_init_def)

section \<open>Dashboard dispatch\<close>

text \<open>
  C2, as the code has it. The dashboard route maps the role \<open>user\<close> to the personal view,
  \<open>venue_owner\<close> to the owner view and \<open>admin\<close> to the admin view, each loading its own
  aggregate, and nothing else is ever rendered. The redirect to \<open>/login\<close> is decided on the
  user profile alone: it is made exactly when the session holds no profile, whatever
  \<open>isAuthenticated\<close> says. Every session after \<open>logout\<close> and every session started
  without a persisted token is redirected.
\<close>

theorem Dashboard_dispatch:
  "(user s = None \<longrightarrow> Dashboard s = Navigate ''/login'')
   \<and> (Dashboard s = Navigate ''/login'' \<longleftrightarrow> user s = None)
   \<and> (\<forall>u. user s = Some u \<and> role u = Some ''user'' \<longrightarrow>
         Dashboard s = UserDashboard
         \<and> fetchDashboardData (Dashboard s) = Some ''/dashboard/user'')
   \<and> (\<forall>u. user s = Some u \<and> role u = Some ''venue_owner'' \<longrightarrow>
         Dashboard s = OwnerDashboard
         \<and> fetchDashboardData (Dashboard s) = Some ''/dashboard/owner'')
   \<and> (\<forall>u. user s = Some u \<and> role u = Some ''admin'' \<longrightarrow>
         Dashboard s = AdminDashboard
         \<and> fetchDashboardData (Dashboard s) = Some ''/dashboard/admin'')
   \<and> Dashboard (logout s) = Navigate ''/login''
   \<and> (\<not> truthy stored \<longrightarrow> Dashboard (AuthProvider_mount stored) = Navigate ''/login'')
   \<and> Dashboard s \<in> {Navigate ''/login'', UserDashboard, OwnerDashboard, AdminDashboard}"
  by (cases stored)
     (auto simp add: Dashboard_def logout_def AuthProvider_mount_def AuthProvider_init_def
        commit_def token_effect_def truthy_def split: option.splits)

theorem Dashboard_dispatch_witness:
  "user (AuthProvider_mount None) = None
   \<and> Dashboard (AuthProvider_mount None) = Navigate ''/login''
   \<and> Dashboard (login \<lparr>access_token = ''abc'',
                         td_user = Some \<lparr>name = ''Ann'', role = Some ''user''\<rparr>\<rparr>
                  (AuthProvider_mount None)) = UserDashboard
   \<and> Dashboard (login \<lparr>access_token = ''abc'',
                         td_user = Some \<lparr>name = ''Bob'', role = Some ''venue_owner''\<rparr>\<rparr>
                  (AuthProvider_mount None)) = OwnerDashboard
   \<and> Dashboard (login \<lparr>access_token = ''abc'',
                         td_user = Some \<lparr>name = ''Eve'', role = Some ''admin''\<rparr>\<rparr>
                  (AuthProvider_mount None)) = AdminDashboard
   \<and> \<not> truthy (Some [])
   \<and> Dashboard (AuthProvider_mount (Some [])) = Navigate ''/login''"
  using
    Dashboard_dispatch [of "AuthProvider_mount None" "Some []"]
    Dashboard_dispatch [of "login \<lparr>access_token = ''abc'',
        td_user = Some \<lparr>name = ''Ann'', role = Some ''user''\<rparr>\<rparr> (AuthProvider_mount None)" None]
    Dashboard_dispatch [of "login \<lparr>access_token = ''abc'',
        td_user = Some \<lparr>name = ''Bob'', role = Some ''venue_owner''\<rparr>\<rparr> (AuthProvider_mount None)" None]
    Dashboard_dispatch [of "login \<lparr>access_token = ''abc'',
        td_user = Some \<lparr>name = ''Eve'', role = Some ''admin''\<rparr>\<rparr> (AuthProvider_mount None)" None]
  by (simp add: login_def truthy_def AuthProvider_mount_def AuthProvider_init_def commit_def
      token_effect_def)

text \<open>
  A session without a token is not always redirected. A profile request that is answered
  after a \<open>logout\<close> stores its profile in a session that has no token, no persisted
  token and no header, and the dashboard then renders the user view although
  \<open>isAuthenticated\<close> is false.
\<close>

theorem profile_stored_after_logout:
  "\<not> isAuthenticated
       (commit (fetchUserInfo_settle (Inr (Some \<lparr>name = ''Ann'', role = Some ''user''\<rparr>))
          (commit (logout (AuthProvider_mount (Some ''abc''))))))
   \<and> token
       (commit (fetchUserInfo_settle (Inr (Some \<lparr>name = ''Ann'', role = Some ''user''\<rparr>))
          (commit (logout (AuthProvider_mount (Some ''abc'')))))) = None
   \<and> localStorage
       (commit (fetchUserInfo_settle (Inr (Some \<lparr>name = ''Ann'', role = Some ''user''\<rparr>))
          (commit (logout (AuthProvider_mount (Some ''abc'')))))) = None
   \<and> Authorization
       (commit (fetchUserInfo_settle (Inr (Some \<lparr>name = ''Ann'', role = Some ''user''\<rparr>))
          (commit (logout (AuthProvider_mount (Some ''abc'')))))) = None
   \<and> Dashboard
       (commit (fetchUserInfo_settle (Inr (Some \<lparr>name = ''Ann'', role = Some ''user''\<rparr>))
          (commit (logout (AuthProvider_mount (Some ''abc'')))))) = UserDashboard"
  by (simp add: isAuthenticated_def truthy_def fetchUserInfo_settle_def logout_def Dashboard_def
      commit_def token_effect_def AuthProvider_mount_def AuthProvider_init_def
      fetchUserInfo_send_def axios_get_def)

text \<open>
  C8. For every session with a user profile whose role is neither \<open>venue_owner\<close> nor
  \<open>admin\<close> (a missing role, the empty string and any other string included) the dashboard
  renders the personal user view: the dispatch rejects no role.
\<close>

theorem Dashboard_falls_through_to_user_view:
  "user s = Some u \<Longrightarrow> role u \<noteq> Some ''venue_owner'' \<Longrightarrow> role u \<noteq> Some ''admin''
   \<Longrightarrow> Dashboard s = UserDashboard"
  by (simp add: Dashboard_def)

theorem Dashboard_falls_through_to_user_view_witness:
  "Dashboard (login \<lparr>access_token = ''abc'', td_user = Some \<lparr>name = ''Ann'', role = None\<rparr>\<rparr>
             (AuthProvider_mount None)) = UserDashboard
   \<and> Dashboard (login \<lparr>access_token = ''abc'', td_user = Some \<lparr>name = ''Ann'', role = Some []\<rparr>\<rparr>
             (AuthProvider_mount None)) = UserDashboard
   \<and> Dashboard (login \<lparr>access_token = ''abc'',
                         td_user = Some \<lparr>name = ''Ann'', role = Some ''superuser''\<rparr>\<rparr>
             (AuthProvider_mount None)) = UserDashboard"
  using
    Dashboard_falls_through_to_user_view [of "login \<lparr>access_token = ''abc'',
        td_user = Some \<lparr>name = ''Ann'', role = None\<rparr>\<rparr> (AuthProvider_mount None)"
      "\<lparr>name = ''Ann'', role = None\<rparr>"]
    Dashboard_falls_through_to_user_view [of "login \<lparr>access_token = ''abc'',
        td_user = Some \<lparr>name = ''Ann'', role = Some []\<rparr>\<rparr> (AuthProvider_mount None)"
      "\<lparr>name = ''Ann'', role = Some []\<rparr>"]
    Dashboard_falls_through_to_user_view [of "login \<lparr>access_token = ''abc'',
        td_user = Some \<lparr>name = ''Ann'', role = Some ''superuser''\<rparr>\<rparr> (AuthProvider_mount None)"
      "\<lparr>name = ''Ann'', role = Some ''superuser''\<rparr>"]
  by (simp add: login_def)

text \<open>
  C9. The redirect is decided on the user profile, not on the token: every state with a
  non-empty token and no user profile is redirected to \<open>/login\<close> although
  \<open>isAuthenticated\<close> is true there. Such a state exists: it is the state right after a
  start with a persisted token, before the profile request has settled.
\<close>

theorem Dashboard_redirects_on_null_user_not_token:
  "(truthy (token s) \<and> user s = None \<longrightarrow> isAuthenticated s \<and> Dashboard s = Navigate ''/login'')
   \<and> (t \<noteq> [] \<longrightarrow>
        token (AuthProvider_mount (Some t)) = Some t
        \<and> user (AuthProvider_mount (Some t)) = None
        \<and> isAuthenticated (AuthProvider_mount (Some t))
        \<and> Dashboard (AuthProvider_mount (Some t)) = Navigate ''/login'')"
  by (simp add: Dashboard_def isAuthenticated_def truthy_def AuthProvider_mount_def
      AuthProvider_init_def commit_def token_effect_def fetchUserInfo_send_def axios_get_def)

theorem Dashboard_redirects_on_null_user_not_token_witness:
  "truthy (token (AuthProvider_mount (Some ''abc'')))
   \<and> user (AuthProvider_mount (Some ''abc'')) = None
   \<and> isAuthenticated (AuthProvider_mount (Some ''abc''))
   \<and> Dashboard (AuthProvider_mount (Some ''abc'')) = Navigate ''/login''"
  using Dashboard_redirects_on_null_user_not_token [of "AuthProvider_mount (Some ''abc'')" "''abc''"]
  by (simp add: truthy_def)

section \<open>Booking amounts\<close>

text \<open>
  C3, as the code has it. The effective hourly price \<open>P\<close> of a venue is \<open>price_per_hour\<close>,
  else \<open>price_per_day\<close>, else 100, a falsy value counting as absent. The posted payload
  has \<open>total_amount = P * 4\<close>, \<open>service_fee = P * 4 * 0.025\<close> and
  \<open>owner_payout = P * 4 * 0.975\<close>, and the total estimate shown is
  \<open>(P * 4 * 1.025).toFixed(2)\<close>, all computed in binary64 arithmetic. When \<open>P\<close> is finite
  and \<open>4P\<close> does not overflow, \<open>total_amount\<close> is exactly \<open>4P\<close>; the fee, the payout and the
  number behind the total line are the products of \<open>4P\<close> with the binary64 values of
  0.025, 0.975 and 1.025, rounded to the nearest binary64 value, and in the normal range
  they differ from \<open>4P \<times> 0.025\<close>, \<open>4P \<times> 0.975\<close> and \<open>4P \<times> 1.025\<close> by a relative error of at
  most \<open>2\<^sup>-\<^sup>5\<^sup>1\<close>. For \<open>price_per_hour = 100\<close> the payload has \<open>total_amount = 400\<close>,
  \<open>service_fee = 10\<close> and \<open>owner_payout = 390\<close>, and the three estimate lines read
  \<open>400.00\<close>, \<open>10.00\<close> and \<open>410.00\<close>.
\<close>

theorem bookingData_amounts:
  "booking_price_per_hour (bookingData v fd) = pricePerHour v
   \<and> pricePerHour v = js_or (price_per_hour v) (js_or (price_per_day v) (Finite 100))
   \<and> (\<forall>p. price_per_hour v = Some (Finite p) \<and> p \<noteq> 0 \<longrightarrow> pricePerHour v = Finite p)
   \<and> (\<forall>d. falsy (price_per_hour v) \<and> price_per_day v = Some (Finite d) \<and> d \<noteq> 0 \<longrightarrow>
         pricePerHour v = Finite d)
   \<and> (falsy (price_per_hour v) \<and> falsy (price_per_day v) \<longrightarrow> pricePerHour v = Finite 100)
   \<and> total_amount (bookingData v fd) = js_mul (pricePerHour v) (Finite 4)
   \<and> service_fee (bookingData v fd)
       = js_mul (js_mul (pricePerHour v) (Finite 4)) (literal (25 / 1000))
   \<and> owner_payout (bookingData v fd)
       = js_mul (js_mul (pricePerHour v) (Finite 4)) (literal (975 / 1000))
   \<and> total_estimate v
       = toFixed 2 (js_mul (js_mul (pricePerHour v) (Finite 4)) (literal (1025 / 1000)))
   \<and> (\<forall>p. pricePerHour v = Finite p \<and> binary64 p \<and> \<bar>p * 4\<bar> < pow2 1024 \<longrightarrow>
         total_amount (bookingData v fd) = Finite (p * 4)
         \<and> service_fee (bookingData v fd)
             = round64 (p * 4 * (3602879701896397 / 144115188075855872))
         \<and> owner_payout (bookingData v fd)
             = round64 (p * 4 * (8782019273372467 / 9007199254740992))
         \<and> total_estimate v
             = toFixed 2 (round64 (p * 4 * (2308094809027379 / 2251799813685248))))
   \<and> (\<forall>p y. pricePerHour v = Finite p \<and> binary64 p \<and> pow2 (- 1018) \<le> \<bar>p\<bar>
           \<and> \<bar>p * 4\<bar> < pow2 1024 \<and> service_fee (bookingData v fd) = Finite y \<longrightarrow>
         \<bar>y - p * 4 * (25 / 1000)\<bar> \<le> \<bar>p * 4 * (25 / 1000)\<bar> / 2 ^ 51)
   \<and> (\<forall>p y. pricePerHour v = Finite p \<and> binary64 p \<and> pow2 (- 1018) \<le> \<bar>p\<bar>
           \<and> \<bar>p * 4\<bar> < pow2 1024 \<and> owner_payout (bookingData v fd) = Finite y \<longrightarrow>
         \<bar>y - p * 4 * (975 / 1000)\<bar> \<le> \<bar>p * 4 * (975 / 1000)\<bar> / 2 ^ 51)
   \<and> (\<forall>p y. pricePerHour v = Finite p \<and> binary64 p \<and> pow2 (- 1018) \<le> \<bar>p\<bar>
           \<and> \<bar>p * 4\<bar> < pow2 1024
           \<and> round64 (p * 4 * (2308094809027379 / 2251799813685248)) = Finite y \<longrightarrow>
         total_estimate v = toFixed 2 (Finite y)
         \<and> \<bar>y - p * 4 * (1025 / 1000)\<bar> \<le> \<bar>p * 4 * (1025 / 1000)\<bar> / 2 ^ 51)
   \<and> (price_per_hour v = Some (Finite 100) \<longrightarrow>
         total_amount (bookingData v fd) = Finite 400
         \<and> service_fee (bookingData v fd) = Finite 10
         \<and> owner_payout (bookingData v fd) = Finite 390
         \<and> base_rate v = Text ''400.00''
         \<and> service_fee_estimate v = Text ''10.00''
         \<and> total_estimate v = Text ''410.00'')"
proof -
  have hundred: "total_estimate v = Text ''410.00''" "base_rate v = Text ''400.00''"
    "service_fee_estimate v = Text ''10.00''"
    "total_amount (bookingData v fd) = Finite 400"
    "service_fee (bookingData v fd) = Finite 10"
    "owner_payout (bookingData v fd) = Finite 390"
    if "price_per_hour v = Some (Finite 100)"
    using that
    by (simp_all add: total_estimate_def base_rate_def service_fee_estimate_def js_or_def
        bookingData_def pricePerHour_def
        mul_100_4 fee_400 payout_400 total_400 toFixed_400 toFixed_10 toFixed_total)
  have exact: "total_amount (bookingData v fd) = Finite (p * 4)"
    "service_fee (bookingData v fd) = round64 (p * 4 * (3602879701896397 / 144115188075855872))"
    "owner_payout (bookingData v fd) = round64 (p * 4 * (8782019273372467 / 9007199254740992))"
    "total_estimate v = toFixed 2 (round64 (p * 4 * (2308094809027379 / 2251799813685248)))"
    if "pricePerHour v = Finite p" "binary64 p" "\<bar>p * 4\<bar> < pow2 1024" for p
  proof -
    have m: "js_mul (Finite p) (Finite 4) = Finite (p * 4)"
      using round64_times_4 [OF that(2,3)] by (simp add: js_mul_def)
    have te: "total_estimate v
        = toFixed 2 (js_mul (js_mul (pricePerHour v) (Finite 4)) (literal (41 / 40)))"
      by (simp add: total_estimate_def pricePerHour_def)
    show "total_amount (bookingData v fd) = Finite (p * 4)"
      by (simp add: bookingData_def that(1) m)
    show "service_fee (bookingData v fd)
        = round64 (p * 4 * (3602879701896397 / 144115188075855872))"
      by (simp add: bookingData_def that(1) m literal_0025) (simp add: js_mul_def)
    show "owner_payout (bookingData v fd)
        = round64 (p * 4 * (8782019273372467 / 9007199254740992))"
      by (simp add: bookingData_def that(1) m literal_0975) (simp add: js_mul_def)
    show "total_estimate v
        = toFixed 2 (round64 (p * 4 * (2308094809027379 / 2251799813685248)))"
      unfolding te that(1) m literal_1025 by (simp add: js_mul_def)
  qed
  have close: "\<bar>y - p * 4 * q\<bar> \<le> \<bar>p * 4 * q\<bar> / 2 ^ 51"
    if "pow2 (- 1018) \<le> \<bar>p\<bar>" "round64 (p * 4 * c) = Finite y"
      "\<bar>c - q\<bar> \<le> \<bar>q\<bar> / 2 ^ 53" "1 / 16 \<le> 4 * \<bar>c\<bar>" for p y c q
  proof -
    have "pow2 (- 1022) \<le> \<bar>p\<bar> * (4 * \<bar>c\<bar>)" using that(1,4) by (rule normal_product)
    then have "pow2 (- 1022) \<le> \<bar>p * 4 * c\<bar>" by (simp add: abs_mult mult_ac)
    with that(2) show ?thesis using that(3) by (rule rounded_product_accuracy)
  qed
  have fee: "\<bar>y - p * 4 * (25 / 1000)\<bar> \<le> \<bar>p * 4 * (25 / 1000)\<bar> / 2 ^ 51"
    if "pricePerHour v = Finite p" "binary64 p" "pow2 (- 1018) \<le> \<bar>p\<bar>"
      "\<bar>p * 4\<bar> < pow2 1024" "service_fee (bookingData v fd) = Finite y" for p y
  proof -
    have "round64 (p * 4 * (3602879701896397 / 144115188075855872)) = Finite y"
      using exact(2) [OF that(1,2,4)] that(5) by simp
    moreover have "1 / 16 \<le> 4 * \<bar>3602879701896397 / 144115188075855872 :: rat\<bar>" by simp
    ultimately show ?thesis by (rule close [OF that(3) _ constants_accuracy(1)])
  qed
  have payout: "\<bar>y - p * 4 * (975 / 1000)\<bar> \<le> \<bar>p * 4 * (975 / 1000)\<bar> / 2 ^ 51"
    if "pricePerHour v = Finite p" "binary64 p" "pow2 (- 1018) \<le> \<bar>p\<bar>"
      "\<bar>p * 4\<bar> < pow2 1024" "owner_payout (bookingData v fd) = Finite y" for p y
  proof -
    have "round64 (p * 4 * (8782019273372467 / 9007199254740992)) = Finite y"
      using exact(3) [OF that(1,2,4)] that(5) by simp
    moreover have "1 / 16 \<le> 4 * \<bar>8782019273372467 / 9007199254740992 :: rat\<bar>" by simp
    ultimately show ?thesis by (rule close [OF that(3) _ constants_accuracy(2)])
  qed
  have total: "total_estimate v = toFixed 2 (Finite y)"
    "\<bar>y - p * 4 * (1025 / 1000)\<bar> \<le> \<bar>p * 4 * (1025 / 1000)\<bar> / 2 ^ 51"
    if "pricePerHour v = Finite p" "binary64 p" "pow2 (- 1018) \<le> \<bar>p\<bar>"
      "\<bar>p * 4\<bar> < pow2 1024"
      "round64 (p * 4 * (2308094809027379 / 2251799813685248)) = Finite y" for p y
  proof -
    show "total_estimate v = toFixed 2 (Finite y)"
      using exact(4) [OF that(1,2,4)] that(5) by simp
    show "\<bar>y - p * 4 * (1025 / 1000)\<bar> \<le> \<bar>p * 4 * (1025 / 1000)\<bar> / 2 ^ 51"
    proof (rule close [OF that(3) that(5) constants_accuracy(3)])
      show "1 / 16 \<le> 4 * \<bar>2308094809027379 / 2251799813685248 :: rat\<bar>" by simp
    qed
  qed
  have pin: "pricePerHour v = Finite p" if "price_per_hour v = Some (Finite p)" "p \<noteq> 0" for p
    using that by (simp add: pricePerHour_def js_or_def)
  have pin_day: "pricePerHour v = Finite d"
    if "falsy (price_per_hour v)" "price_per_day v = Some (Finite d)" "d \<noteq> 0" for d
    using that by (auto simp: pricePerHour_def js_or_def falsy_def split: option.splits)
  have pin_default: "pricePerHour v = Finite 100"
    if "falsy (price_per_hour v)" "falsy (price_per_day v)"
    using that by (auto simp: pricePerHour_def js_or_def falsy_def split: option.splits)
  have general:
    "booking_price_per_hour (bookingData v fd) = pricePerHour v"
    "pricePerHour v = js_or (price_per_hour v) (js_or (price_per_day v) (Finite 100))"
    "total_amount (bookingData v fd) = js_mul (pricePerHour v) (Finite 4)"
    "service_fee (bookingData v fd)
       = js_mul (js_mul (pricePerHour v) (Finite 4)) (literal (25 / 1000))"
    "owner_payout (bookingData v fd)
       = js_mul (js_mul (pricePerHour v) (Finite 4)) (literal (975 / 1000))"
    "total_estimate v
       = toFixed 2 (js_mul (js_mul (pricePerHour v) (Finite 4)) (literal (1025 / 1000)))"
    by (simp_all add: bookingData_def pricePerHour_def total_estimate_def)
  show ?thesis
    by (intro conjI allI impI; (elim conjE)?)
       (fact general | rule hundred exact fee payout total pin pin_day pin_default; assumption)+
qed

theorem bookingData_amounts_witness:
  "pricePerHour \<lparr>venue_id = ''v1'', venue_name = ''Hall'',
                  price_per_hour = Some (Finite 100), price_per_day = None\<rparr> = Finite 100
   \<and> binary64 100 \<and> \<bar>100 * 4 :: rat\<bar> < pow2 1024
   \<and> total_amount (bookingData \<lparr>venue_id = ''v1'', venue_name = ''Hall'',
                     price_per_hour = Some (Finite 100), price_per_day = None\<rparr>
        \<lparr>form_name = ''Ann'', email = ''ann@example.org'', event_date = ''2026-01-01'',
         form_event_type = ''wedding'', guests = ''50'', message = []\<rparr>) = Finite 400
   \<and> service_fee (bookingData \<lparr>venue_id = ''v1'', venue_name = ''Hall'',
                     price_per_hour = Some (Finite 100), price_per_day = None\<rparr>
        \<lparr>form_name = ''Ann'', email = ''ann@example.org'', event_date = ''2026-01-01'',
         form_event_type = ''wedding'', guests = ''50'', message = []\<rparr>) = Finite 10
   \<and> owner_payout (bookingData \<lparr>venue_id = ''v1'', venue_name = ''Hall'',
                     price_per_hour = Some (Finite 100), price_per_day = None\<rparr>
        \<lparr>form_name = ''Ann'', email = ''ann@example.org'', event_date = ''2026-01-01'',
         form_event_type = ''wedding'', guests = ''50'', message = []\<rparr>) = Finite 390
   \<and> total_estimate \<lparr>venue_id = ''v1'', venue_name = ''Hall'',
                     price_per_hour = Some (Finite 100), price_per_day = None\<rparr> = Text ''410.00''
   \<and> falsy (Some (Finite 0)) \<and> falsy None
   \<and> pricePerHour \<lparr>venue_id = ''v2'', venue_name = ''Barn'',
                  price_per_hour = Some (Finite 0), price_per_day = Some (Finite 50)\<rparr> = Finite 50
   \<and> total_amount (bookingData \<lparr>venue_id = ''v2'', venue_name = ''Barn'',
                     price_per_hour = Some (Finite 0), price_per_day = Some (Finite 50)\<rparr>
        \<lparr>form_name = ''Ann'', email = ''ann@example.org'', event_date = ''2026-01-01'',
         form_event_type = ''wedding'', guests = ''50'', message = []\<rparr>) = Finite 200
   \<and> service_fee (bookingData \<lparr>venue_id = ''v2'', venue_name = ''Barn'',
                     price_per_hour = Some (Finite 0), price_per_day = Some (Finite 50)\<rparr>
        \<lparr>form_name = ''Ann'', email = ''ann@example.org'', event_date = ''2026-01-01'',
         form_event_type = ''wedding'', guests = ''50'', message = []\<rparr>) = Finite 5
   \<and> owner_payout (bookingData \<lparr>venue_id = ''v2'', venue_name = ''Barn'',
                     price_per_hour = Some (Finite 0), price_per_day = Some (Finite 50)\<rparr>
        \<lparr>form_name = ''Ann'', email = ''ann@example.org'', event_date = ''2026-01-01'',
         form_event_type = ''wedding'', guests = ''50'', message = []\<rparr>) = Finite 195
   \<and> pricePerHour \<lparr>venue_id = ''v3'', venue_name = ''Loft'',
                  price_per_hour = None, price_per_day = None\<rparr> = Finite 100
   \<and> pricePerHour \<lparr>venue_id = ''v4'', venue_name = ''Shed'',
                  price_per_hour = Some (Finite 3), price_per_day = Some (Finite 50)\<rparr> = Finite 3
   \<and> binary64 3 \<and> pow2 (- 1018) \<le> \<bar>3 :: rat\<bar> \<and> \<bar>3 * 4 :: rat\<bar> < pow2 1024
   \<and> total_amount (bookingData \<lparr>venue_id = ''v4'', venue_name = ''Shed'',
                     price_per_hour = Some (Finite 3), price_per_day = Some (Finite 50)\<rparr>
        \<lparr>form_name = ''Ann'', email = ''ann@example.org'', event_date = ''2026-01-01'',
         form_event_type = ''wedding'', guests = ''50'', message = []\<rparr>) = Finite 12
   \<and> service_fee (bookingData \<lparr>venue_id = ''v4'', venue_name = ''Shed'',
                     price_per_hour = Some (Finite 3), price_per_day = Some (Finite 50)\<rparr>
        \<lparr>form_name = ''Ann'', email = ''ann@example.org'', event_date = ''2026-01-01'',
         form_event_type = ''wedding'', guests = ''50'', message = []\<rparr>)
       = Finite (1351079888211149 / 4503599627370496)
   \<and> \<bar>1351079888211149 / 4503599627370496 - 3 * 4 * (25 / 1000) :: rat\<bar>
       \<le> \<bar>3 * 4 * (25 / 1000)\<bar> / 2 ^ 51"
  using
    bookingData_amounts [of "\<lparr>venue_id = ''v1'', venue_name = ''Hall'',
        price_per_hour = Some (Finite 100), price_per_day = None\<rparr>"
      "\<lparr>form_name = ''Ann'', email = ''ann@example.org'', event_date = ''2026-01-01'',
         form_event_type = ''wedding'', guests = ''50'', message = []\<rparr>"]
    bookingData_amounts [of "\<lparr>venue_id = ''v2'', venue_name = ''Barn'',
        price_per_hour = Some (Finite 0), price_per_day = Some (Finite 50)\<rparr>"
      "\<lparr>form_name = ''Ann'', email = ''ann@example.org'', event_date = ''2026-01-01'',
         form_event_type = ''wedding'', guests = ''50'', message = []\<rparr>"]
    bookingData_amounts [of "\<lparr>venue_id = ''v3'', venue_name = ''Loft'',
        price_per_hour = None, price_per_day = None\<rparr>"
      "\<lparr>form_name = ''Ann'', email = ''ann@example.org'', event_date = ''2026-01-01'',
         form_event_type = ''wedding'', guests = ''50'', message = []\<rparr>"]
    bookingData_amounts [of "\<lparr>venue_id = ''v4'', venue_name = ''Shed'',
        price_per_hour = Some (Finite 3), price_per_day = Some (Finite 50)\<rparr>"
      "\<lparr>form_name = ''Ann'', email = ''ann@example.org'', event_date = ''2026-01-01'',
         form_event_type = ''wedding'', guests = ''50'', message = []\<rparr>"]
    binary64_100 binary64_3 pow2_bounds_small js_mul_three_tenths
  by (simp add: js_or_def falsy_def pricePerHour_def bookingData_def mul_100_4 fee_400 payout_400
      total_400 toFixed_total mul_50_4 fee_200 payout_200)

text \<open>
  The amounts are not the exact decimal products. For an hourly price of 3 the fee is
  0.30000000000000004 and not \<open>4 \<times> 3 \<times> 0.025 = 0.3\<close>; for an hourly price of 0.75 the
  total line reads \<open>3.07\<close>, while the exact product 3.075 is shown as \<open>3.08\<close> by the same
  \<open>toFixed\<close>.
\<close>

theorem bookingData_amounts_inexact:
  "service_fee (bookingData \<lparr>venue_id = ''v4'', venue_name = ''Shed'',
                     price_per_hour = Some (Finite 3), price_per_day = None\<rparr>
        \<lparr>form_name = ''Ann'', email = ''ann@example.org'', event_date = ''2026-01-01'',
         form_event_type = ''wedding'', guests = ''50'', message = []\<rparr>)
     = Finite (1351079888211149 / 4503599627370496)
   \<and> service_fee (bookingData \<lparr>venue_id = ''v4'', venue_name = ''Shed'',
                     price_per_hour = Some (Finite 3), price_per_day = None\<rparr>
        \<lparr>form_name = ''Ann'', email = ''ann@example.org'', event_date = ''2026-01-01'',
         form_event_type = ''wedding'', guests = ''50'', message = []\<rparr>)
     \<noteq> Finite (4 * 3 * (25 / 1000))
   \<and> total_estimate \<lparr>venue_id = ''v5'', venue_name = ''Nook'',
                     price_per_hour = Some (Finite (3 / 4)), price_per_day = None\<rparr> = Text ''3.07''
   \<and> toFixed 2 (Finite (4 * (3 / 4) * (1025 / 1000))) = Text ''3.08''"
proof -
  have "js_mul (js_mul (Finite (3 / 4)) (Finite 4)) (literal (41 / 40))
     = Finite (6924284427082137 / 2251799813685248)"
    and "toFixed 2 (Finite (6924284427082137 / 2251799813685248)) = Text ''3.07''"
    using total_line_three_quarters by simp_all
  then have "total_estimate \<lparr>venue_id = ''v5'', venue_name = ''Nook'',
                     price_per_hour = Some (Finite (3 / 4)), price_per_day = None\<rparr> = Text ''3.07''"
    by (simp add: total_estimate_def js_or_def)
  moreover have "toFixed 2 (Finite (4 * (3 / 4) * (1025 / 1000))) = Text ''3.08''"
    by (rule toFixed_exact_tie)
  moreover have "service_fee (bookingData \<lparr>venue_id = ''v4'', venue_name = ''Shed'',
                     price_per_hour = Some (Finite 3), price_per_day = None\<rparr>
        \<lparr>form_name = ''Ann'', email = ''ann@example.org'', event_date = ''2026-01-01'',
         form_event_type = ''wedding'', guests = ''50'', message = []\<rparr>)
     = Finite (1351079888211149 / 4503599627370496)"
    using js_mul_three_tenths by (simp add: bookingData_def pricePerHour_def js_or_def)
  ultimately show ?thesis by simp
qed

section \<open>Price fallback\<close>

text \<open>
  C10. The fallback chain treats a falsy price as absent. For every venue whose
  \<open>price_per_hour\<close> is 0, \<open>null\<close> or missing, the price shown and the price of the booking
  payload are \<open>price_per_day\<close>, or 100 when that is falsy too. The effective price is
  never 0, and for prices as they come out of \<open>JSON.parse\<close> the \<open>total_amount\<close> of the
  payload is never 0 either.
\<close>

theorem price_fallback_skips_falsy:
  "(falsy (price_per_hour v) \<longrightarrow>
      pricePerHour v = js_or (price_per_day v) (Finite 100)
      \<and> starting_price v = js_or (price_per_day v) (Finite 100)
      \<and> booking_price_per_hour (bookingData v fd) = js_or (price_per_day v) (Finite 100)
      \<and> base_rate v = toFixed 2 (js_mul (js_or (price_per_day v) (Finite 100)) (Finite 4)))
   \<and> (falsy (price_per_hour v) \<and> falsy (price_per_day v) \<longrightarrow>
      pricePerHour v = Finite 100 \<and> starting_price v = Finite 100
      \<and> total_amount (bookingData v fd) = Finite 400)
   \<and> (falsy (price_per_hour v) \<and> \<not> falsy (price_per_day v) \<longrightarrow>
      price_per_day v = Some (pricePerHour v) \<and> price_per_day v = Some (starting_price v))
   \<and> pricePerHour v \<noteq> Finite 0
   \<and> starting_price v \<noteq> Finite 0
   \<and> booking_price_per_hour (bookingData v fd) \<noteq> Finite 0
   \<and> (json_number (price_per_hour v) \<and> json_number (price_per_day v) \<longrightarrow>
      total_amount (bookingData v fd) \<noteq> Finite 0)"
proof -
  have "total_amount (bookingData v fd) \<noteq> Finite 0"
    if "json_number (price_per_hour v)" "json_number (price_per_day v)"
    using total_amount_nonzero [OF that] by (simp add: bookingData_def)
  moreover have "pricePerHour v \<noteq> Finite 0" "starting_price v \<noteq> Finite 0"
    "booking_price_per_hour (bookingData v fd) \<noteq> Finite 0"
    using pricePerHour_cases [of v] by (simp_all add: starting_price_def pricePerHour_def bookingData_def)
  moreover have "pricePerHour v = js_or (price_per_day v) (Finite 100)"
    "starting_price v = js_or (price_per_day v) (Finite 100)"
    "booking_price_per_hour (bookingData v fd) = js_or (price_per_day v) (Finite 100)"
    "base_rate v = toFixed 2 (js_mul (js_or (price_per_day v) (Finite 100)) (Finite 4))"
    if "falsy (price_per_hour v)"
    using that
    by (auto simp: falsy_def pricePerHour_def starting_price_def bookingData_def js_or_def
        base_rate_def split: option.splits)
  moreover have "pricePerHour v = Finite 100" "starting_price v = Finite 100"
    "total_amount (bookingData v fd) = Finite 400"
    if "falsy (price_per_hour v)" "falsy (price_per_day v)"
    using that
    by (auto simp: falsy_def pricePerHour_def starting_price_def bookingData_def js_or_def
        mul_100_4 split: option.splits)
  moreover have "price_per_day v = Some (pricePerHour v)" "price_per_day v = Some (starting_price v)"
    if "falsy (price_per_hour v)" "\<not> falsy (price_per_day v)"
    using that
    by (auto simp: falsy_def pricePerHour_def starting_price_def js_or_def split: option.splits)
  ultimately show ?thesis by blast
qed

theorem price_fallback_skips_falsy_witness:
  "falsy (Some (Finite 0)) \<and> falsy None \<and> \<not> falsy (Some (Finite 50))
   \<and> json_number (Some (Finite 0)) \<and> json_number None \<and> json_number (Some (Finite 50))
   \<and> pricePerHour \<lparr>venue_id = ''v1'', venue_name = ''Hall'',
                     price_per_hour = Some (Finite 0), price_per_day = None\<rparr> = Finite 100
   \<and> total_amount (bookingData \<lparr>venue_id = ''v1'', venue_name = ''Hall'',
                     price_per_hour = Some (Finite 0), price_per_day = None\<rparr>
        \<lparr>form_name = ''Ann'', email = ''ann@example.org'', event_date = ''2026-01-01'',
         form_event_type = ''wedding'', guests = ''50'', message = []\<rparr>) = Finite 400
   \<and> pricePerHour \<lparr>venue_id = ''v2'', venue_name = ''Barn'',
                     price_per_hour = Some (Finite 0), price_per_day = Some (Finite 50)\<rparr> = Finite 50
   \<and> starting_price \<lparr>venue_id = ''v2'', venue_name = ''Barn'',
                     price_per_hour = Some (Finite 0), price_per_day = Some (Finite 50)\<rparr> = Finite 50
   \<and> total_amount (bookingData \<lparr>venue_id = ''v2'', venue_name = ''Barn'',
                     price_per_hour = Some (Finite 0), price_per_day = Some (Finite 50)\<rparr>
        \<lparr>form_name = ''Ann'', email = ''ann@example.org'', event_date = ''2026-01-01'',
         form_event_type = ''wedding'', guests = ''50'', message = []\<rparr>) \<noteq> Finite 0"
  using
    price_fallback_skips_falsy [of "\<lparr>venue_id = ''v1'', venue_name = ''Hall'',
        price_per_hour = Some (Finite 0), price_per_day = None\<rparr>"
      "\<lparr>form_name = ''Ann'', email = ''ann@example.org'', event_date = ''2026-01-01'',
         form_event_type = ''wedding'', guests = ''50'', message = []\<rparr>"]
    price_fallback_skips_falsy [of "\<lparr>venue_id = ''v2'', venue_name = ''Barn'',
        price_per_hour = Some (Finite 0), price_per_day = Some (Finite 50)\<rparr>"
      "\<lparr>form_name = ''Ann'', email = ''ann@example.org'', event_date = ''2026-01-01'',
         form_event_type = ''wedding'', guests = ''50'', message = []\<rparr>"]
    binary64_0 binary64_50
  by (simp add: falsy_def json_number_def js_or_def)

section \<open>Venue query strings\<close>


end
